theory Spec2Isabelle
  imports Main
begin

section \<open>GridControl: the peer coordination engine of gridcontrol.js\<close>

text \<open>
  The development embeds \<^verbatim>\<open>src/gridcontrol.js\<close>. Every method and every event handler
  of \<^verbatim>\<open>GridControl\<close> becomes a function on an explicit node state. Calls into the
  collaborators (socket pool, discovery transport, file manager, task manager, console)
  are appended to a trace, in the order in which the code makes them; what a
  collaborator answers is a parameter of the handler that receives the answer.
\<close>

subsection \<open>Data\<close>

text \<open>A JavaScript string is a sequence of UTF-16 code units, numbers below 65536.
  \<open>js_string_of\<close> gives the string of an ASCII literal of the source.\<close>

type_synonym js_string = "nat list"

definition js_string_of :: "string \<Rightarrow> js_string" where
  "js_string_of cs = map of_char cs"

text \<open>A thrown JavaScript exception. The code itself throws nothing; the only
  exceptions are property reads and calls on \<^verbatim>\<open>undefined\<close>.\<close>

datatype js_error = TypeError string

text \<open>The identity object a router carries once the remote peer's \<^verbatim>\<open>identity\<close>
  message has arrived. The handlers read \<^verbatim>\<open>public_ip\<close> and \<^verbatim>\<open>name\<close> and write
  \<^verbatim>\<open>synchronized\<close>; a property that was never written reads as \<^verbatim>\<open>undefined\<close>,
  which is falsy, and is \<open>False\<close> here.\<close>

record peer_identity =
  id_public_ip :: string
  id_name :: string
  synchronized :: bool

text \<open>A router of the socket pool: the connection it wraps and the remote identity,
  unset until the identity exchange completes.\<close>

record router =
  sock :: nat
  identity :: "peer_identity option"

record task_meta =
  instances :: nat
  json_conf :: string
  task_folder :: string
  env :: string
  base_folder :: "string option"

text \<open>The payload of a \<^verbatim>\<open>sync\<close> message, as \<^verbatim>\<open>askPeerToSync\<close> builds it.\<close>

record sync_data =
  sd_public_ip :: "string option"
  sd_private_ip :: string
  meta :: task_meta
  curr_md5 :: string

text \<open>What \<^verbatim>\<open>getLocalIdentity\<close> returns (the fields that depend on the node).\<close>

record local_identity =
  li_public_ip :: "string option"
  li_private_ip :: string
  li_api_port :: nat
  li_name :: string
  li_ns :: js_string
  li_files_master :: bool

text \<open>The packet of a \<^verbatim>\<open>trigger\<close> message and the request handed to the task manager.\<close>

record packet =
  task_id :: string
  data :: string
  opts :: string

record trigger_request =
  rq_task_id :: string
  rq_task_data :: string
  rq_task_opts :: string

datatype message =
    MIdentity local_identity
  | MSync sync_data string
  | MSyncDone string
  | MClear

text \<open>The calls the engine makes on its surroundings.\<close>

datatype effect =
    ConsoleError "string list"
  | ConsoleLog string
  | Emit string
  | RouterSend nat message
  | PoolBroadcast message
  | IpCreate
  | IpListen nat
  | IpJoin string
  | IpClose
  | DiscoveryCb "string option"
  | FmSynchronize sync_data string
  | FmClear
  | SetTaskMeta task_meta
  | InitTaskGroup task_meta
  | TriggerTask trigger_request
  | Reply "string option" "string option"
  | SetInterval nat
  | SetTimeout nat nat
  | WriteConf
  | PublicIpLookup
  | ApiStart

text \<open>The file manager as the engine sees it: \<^verbatim>\<open>isFileMaster()\<close>,
  \<^verbatim>\<open>hasFileToSync()\<close>, \<^verbatim>\<open>getCurrentMD5()\<close> and \<^verbatim>\<open>current_file_buff\<close>.\<close>

record file_manager =
  is_file_master :: bool
  has_file_to_sync :: bool
  current_md5 :: string
  current_file_buff :: string

text \<open>The callback argument of \<^verbatim>\<open>startDiscovery\<close>: the arrow function that
  \<^verbatim>\<open>start\<close> passes, or a function of some other caller, which is opaque.\<close>

datatype discovery_cb = StartCb | CallerCb

text \<open>The discovery session held in \<^verbatim>\<open>this.Interplanetary\<close>: the topic joined, the
  \<^verbatim>\<open>cb\<close> that the handlers registered on it have captured (\<open>None\<close> when
  \<^verbatim>\<open>startDiscovery\<close> was called without one), whether the \<^verbatim>\<open>listening\<close> event
  has been received on it, and whether \<^verbatim>\<open>close()\<close> has been called.\<close>

record session =
  s_key :: string
  s_cb :: "discovery_cb option"
  s_bound :: bool
  s_closed :: bool

text \<open>Modelled from the spec: \<^verbatim>\<open>lib/wait.js\<close> is not among the sources. The
  readiness state is the set of received one-shot signal names among the awaited ones;
  it resolves when every awaited name has been received, and a signal that arrives
  after that is a no-op.\<close>

record barrier =
  awaited :: "string list"
  received :: "string list"
  resolved :: bool

text \<open>The node. \<open>interplanetary\<close> is \<open>None\<close> until \<^verbatim>\<open>startDiscovery\<close> assigns the
  field (the constructor does not); \<open>pool\<close> is what \<^verbatim>\<open>SocketPool.getRouters()\<close>
  returns, in insertion order; \<open>test_env\<close> is \<^verbatim>\<open>process.env.NODE_ENV == 'test'\<close>;
  \<open>wait\<close> is the barrier that \<^verbatim>\<open>start\<close> creates, and \<open>ready_pending\<close> says that
  its promise has resolved and the \<^verbatim>\<open>then\<close> callback has not run yet.\<close>

record node =
  peer_name :: string
  namespace :: js_string
  public_ip :: "string option"
  private_ip :: string
  peer_api_port :: nat
  network_port :: "nat option"
  pool :: "router list"
  interplanetary :: "session option"
  fm :: file_manager
  tm_meta :: task_meta
  test_env :: bool
  wait :: "barrier option"
  ready_pending :: bool
  trace :: "effect list"

definition do_effects :: "effect list \<Rightarrow> node \<Rightarrow> node" where
  "do_effects es n = n\<lparr>trace := trace n @ es\<rparr>"

subsection \<open>Rendezvous key\<close>

text \<open>\<^verbatim>\<open>new Buffer(this.namespace + ':square-node:unik')\<close>, line 217, encodes the
  string in UTF-8. The code units are read as code points first: a high surrogate
  followed by a low one is the code point of the pair, any other surrogate is replaced
  by U+FFFD (65533), and every other unit is its own code point.\<close>

definition is_high :: "nat \<Rightarrow> bool" where
  "is_high u = (55296 \<le> u \<and> u < 56320)"

definition is_low :: "nat \<Rightarrow> bool" where
  "is_low u = (56320 \<le> u \<and> u < 57344)"

fun code_points :: "js_string \<Rightarrow> nat list" where
  "code_points [] = []"
| "code_points [u] = [if is_high u \<or> is_low u then 65533 else u]"
| "code_points (u # v # us) =
     (if is_high u \<and> is_low v
      then (65536 + (u - 55296) * 1024 + (v - 56320)) # code_points us
      else (if is_high u \<or> is_low u then 65533 else u) # code_points (v # us))"

text \<open>The UTF-8 bytes of a code point, and the buffer of a string.\<close>

definition utf8_of :: "nat \<Rightarrow> nat list" where
  "utf8_of c =
     (if c < 128 then [c]
      else if c < 2048 then [192 + c div 64, 128 + c mod 64]
      else if c < 65536 then [224 + c div 4096, 128 + (c div 64) mod 64, 128 + c mod 64]
      else [240 + c div 262144, 128 + (c div 4096) mod 64, 128 + (c div 64) mod 64,
            128 + c mod 64])"

definition buffer_of :: "js_string \<Rightarrow> nat list" where
  "buffer_of s = concat (map utf8_of (code_points s))"

text \<open>\<^verbatim>\<open>key.toString('hex')\<close>, line 226: two lower-case hexadecimal digits for each
  byte.\<close>

definition hex_digit :: "nat \<Rightarrow> char" where
  "hex_digit d = ''0123456789abcdef'' ! d"

definition hex_of_byte :: "nat \<Rightarrow> string" where
  "hex_of_byte b = [hex_digit (b div 16), hex_digit (b mod 16)]"

definition to_hex :: "nat list \<Rightarrow> string" where
  "to_hex bs = concat (map hex_of_byte bs)"

definition key_suffix :: js_string where
  "key_suffix = js_string_of '':square-node:unik''"

definition discovery_key :: "js_string \<Rightarrow> string" where
  "discovery_key ns = to_hex (buffer_of (ns @ key_suffix))"





subsection \<open>Events and the readiness barrier\<close>

text \<open>Modelled from the spec: one signal reaching the barrier of \<^verbatim>\<open>lib/wait.js\<close>
  (not among the sources). The result says whether this signal resolves the promise.\<close>

definition wait_signal :: "string \<Rightarrow> barrier \<Rightarrow> barrier \<times> bool" where
  "wait_signal s b =
     (if resolved b \<or> \<not> List.member (awaited b) s then (b, False)
      else let rc = List.insert s (received b) in
        if list_all (List.member rc) (awaited b)
        then (b\<lparr>received := rc, resolved := True\<rparr>, True)
        else (b\<lparr>received := rc\<rparr>, False))"

text \<open>\<^verbatim>\<open>this.emit(name)\<close>: the listeners outside the engine see the event, and the
  barrier, when \<^verbatim>\<open>start\<close> has created it, receives the signal.\<close>

definition emit :: "string \<Rightarrow> node \<Rightarrow> node" where
  "emit name n =
     (let n1 = do_effects [Emit name] n in
      case wait n1 of
        None \<Rightarrow> n1
      | Some b \<Rightarrow>
          (let (b', fired) = wait_signal name b in
           n1\<lparr>wait := Some b', ready_pending := (ready_pending n1 \<or> fired)\<rparr>))"

text \<open>The \<^verbatim>\<open>then\<close> callback of \<^verbatim>\<open>start\<close> (lines 156 to 185): it emits
  \<^verbatim>\<open>ready\<close>, starts the 10000 ms interval and, outside test mode, writes the
  configuration. The \<^verbatim>\<open>fmt\<close> output is left out.\<close>

definition on_ready :: "node \<Rightarrow> node" where
  "on_ready n =
     (let n1 = emit ''ready'' n;
          n2 = do_effects [SetInterval 10000] n1
      in if \<not> test_env n2 then do_effects [WriteConf] n2 else n2)"

text \<open>A promise reaction runs once the handler that resolved the promise has returned.\<close>

definition settle :: "node \<Rightarrow> node" where
  "settle n = (if ready_pending n then on_ready (n\<lparr>ready_pending := False\<rparr>) else n)"

text \<open>The synchronous part of \<^verbatim>\<open>start\<close>: the barrier on the three signals, the
  public address lookup and the start of the API.\<close>

definition start :: "node \<Rightarrow> node" where
  "start n =
     do_effects [PublicIpLookup, ApiStart]
       (n\<lparr>wait := Some \<lparr>awaited = [''ip:ready'', ''discovery:ready'', ''api:ready''],
                          received = [], resolved = False\<rparr>\<rparr>)"


definition count_emitted :: "string \<Rightarrow> node \<Rightarrow> nat" where
  "count_emitted name n = length (filter (\<lambda>e. e = Emit name) (trace n))"

subsection \<open>Discovery\<close>

text \<open>\<^verbatim>\<open>startDiscovery(ns, cb)\<close>, lines 212 to 240. The three handlers it registers
  are \<open>interplanetary_on_error\<close>, \<open>interplanetary_on_listening\<close> and \<open>onNewPeer\<close>.\<close>

definition startDiscovery :: "js_string \<Rightarrow> discovery_cb option \<Rightarrow> node \<Rightarrow> node" where
  "startDiscovery ns cb n =
     do_effects [IpCreate, IpListen 0, IpJoin (discovery_key ns)]
       (n\<lparr>namespace := ns,
          interplanetary := Some \<lparr>s_key = discovery_key ns, s_cb = cb,
                                  s_bound = False, s_closed = False\<rparr>\<rparr>)"

text \<open>\<^verbatim>\<open>this.Interplanetary.close()\<close>, which throws when the field is unset.\<close>

definition interplanetary_close :: "node \<Rightarrow> js_error + node" where
  "interplanetary_close n =
     (case interplanetary n of
        None \<Rightarrow> Inl (TypeError ''Cannot read property close of undefined'')
      | Some s \<Rightarrow> Inr (do_effects [IpClose] (n\<lparr>interplanetary := Some (s\<lparr>s_closed := True\<rparr>)\<rparr>)))"

text \<open>\<^verbatim>\<open>stopDiscovery\<close>, lines 247 to 249.\<close>

definition stopDiscovery :: "node \<Rightarrow> js_error + node" where
  "stopDiscovery n = interplanetary_close n"

text \<open>An invocation of the callback given to \<^verbatim>\<open>startDiscovery\<close>. The callback of
  \<^verbatim>\<open>start\<close> (lines 191 to 194) prints the error, if any, and emits
  \<^verbatim>\<open>discovery:ready\<close>.\<close>

definition call_cb :: "discovery_cb \<Rightarrow> string option \<Rightarrow> node \<Rightarrow> node" where
  "call_cb c err n =
     (let n1 = do_effects [DiscoveryCb err] n in
      case c of
        CallerCb \<Rightarrow> n1
      | StartCb \<Rightarrow>
          emit ''discovery:ready''
            (case err of None \<Rightarrow> n1 | Some e \<Rightarrow> do_effects [ConsoleError [e]] n1))"

text \<open>The \<^verbatim>\<open>error\<close> handler, lines 228 to 232: \<^verbatim>\<open>return cb(e)\<close> without a test
  of \<^verbatim>\<open>cb\<close>.\<close>

definition interplanetary_on_error :: "discovery_cb option \<Rightarrow> string \<Rightarrow> node \<Rightarrow> js_error + node" where
  "interplanetary_on_error cb e n =
     (let n1 = do_effects [ConsoleError [''Interplanetary got error''], ConsoleError [e]] n in
      case cb of
        None \<Rightarrow> Inl (TypeError ''cb is not a function'')
      | Some c \<Rightarrow> Inr (call_cb c (Some e) n1))"

text \<open>The \<^verbatim>\<open>listening\<close> handler, lines 234 to 237: \<^verbatim>\<open>return cb ? cb() : false\<close>.
  The port is the one the transport reports.\<close>

definition interplanetary_on_listening :: "discovery_cb option \<Rightarrow> nat \<Rightarrow> node \<Rightarrow> js_error + node" where
  "interplanetary_on_listening cb port n =
     (case interplanetary n of
        None \<Rightarrow> Inl (TypeError ''Cannot read property _tcp of undefined'')
      | Some s \<Rightarrow>
          (let n1 = n\<lparr>network_port := Some port,
                       interplanetary := Some (s\<lparr>s_bound := True\<rparr>)\<rparr> in
           case cb of
             None \<Rightarrow> Inr n1
           | Some c \<Rightarrow> Inr (call_cb c None n1)))"

text \<open>\<^verbatim>\<open>getLocalIdentity\<close>, lines 364 to 380.\<close>

definition getLocalIdentity :: "node \<Rightarrow> local_identity" where
  "getLocalIdentity n =
     \<lparr>li_public_ip = public_ip n, li_private_ip = private_ip n,
      li_api_port = peer_api_port n, li_name = peer_name n, li_ns = namespace n,
      li_files_master = is_file_master (fm n)\<rparr>"

text \<open>Modelled from the spec: \<^verbatim>\<open>SocketPool.add\<close> (\<^verbatim>\<open>network/socket-pool.js\<close> is not
  among the sources) registers the connection and returns its router, which has no
  remote identity until the \<^verbatim>\<open>identity\<close> message of the peer arrives.\<close>

definition pool_add :: "nat \<Rightarrow> node \<Rightarrow> node" where
  "pool_add sk n = n\<lparr>pool := pool n @ [\<lparr>sock = sk, identity = None\<rparr>]\<rparr>"

text \<open>\<^verbatim>\<open>onNewPeer\<close>, lines 256 to 273, up to the registration of the message handlers.
  The delayed \<^verbatim>\<open>askPeerToSync\<close> is the timeout on the new router.\<close>

definition onNewPeer :: "nat \<Rightarrow> node \<Rightarrow> node" where
  "onNewPeer sk n =
     (let n1 = pool_add sk n;
          n2 = emit ''new:peer'' n1;
          n3 = do_effects [RouterSend sk (MIdentity (getLocalIdentity n2))] n2
      in if is_file_master (fm n3) \<and> has_file_to_sync (fm n3)
         then do_effects [SetTimeout sk 1500] n3 else n3)"

text \<open>The events of the current discovery session, dispatched to the handlers that
  \<^verbatim>\<open>startDiscovery\<close> registered on it (they have captured its \<^verbatim>\<open>cb\<close>).\<close>

datatype ip_event = IpError string | IpListening nat | IpConnection nat

definition session_event :: "ip_event \<Rightarrow> node \<Rightarrow> js_error + node" where
  "session_event ev n =
     (case interplanetary n of
        None \<Rightarrow> Inr n
      | Some s \<Rightarrow>
          (case ev of
             IpError e \<Rightarrow> interplanetary_on_error (s_cb s) e n
           | IpListening p \<Rightarrow> interplanetary_on_listening (s_cb s) p n
           | IpConnection sk \<Rightarrow> Inr (onNewPeer sk n)))"

fun session_events :: "ip_event list \<Rightarrow> node \<Rightarrow> js_error + node" where
  "session_events [] n = Inr n"
| "session_events (ev # evs) n =
     (case session_event ev n of
        Inl err \<Rightarrow> Inl err
      | Inr n' \<Rightarrow> session_events evs (settle n'))"

text \<open>The arguments of the callback invocations recorded in a trace, in order.\<close>

fun cb_calls :: "effect list \<Rightarrow> string option list" where
  "cb_calls [] = []"
| "cb_calls (DiscoveryCb err # es) = err # cb_calls es"
| "cb_calls (e # es) = cb_calls es"

text \<open>What the handlers of a session pass to the callback for one event.\<close>

fun cb_args :: "ip_event \<Rightarrow> string option list" where
  "cb_args (IpError e) = [Some e]"
| "cb_args (IpListening p) = [None]"
| "cb_args (IpConnection sk) = []"

text \<open>The two reactions that \<^verbatim>\<open>start\<close> registers, lines 187 to 201: the public
  address has been resolved, and the API is bound.\<close>

definition on_public_ip :: "string \<Rightarrow> node \<Rightarrow> node" where
  "on_public_ip ip n =
     (let n1 = emit ''ip:ready'' (n\<lparr>public_ip := Some ip\<rparr>)
      in startDiscovery (namespace n1) (Some StartCb) n1)"

definition on_api_started :: "node \<Rightarrow> node" where
  "on_api_started n = emit ''api:ready'' (do_effects [ConsoleLog ''api ready''] n)"

subsection \<open>The self-healing timer\<close>

text \<open>The interval callback, lines 162 to 168.\<close>

definition interval_tick :: "node \<Rightarrow> js_error + node" where
  "interval_tick n =
     (if length (pool n) = 0
      then (case interplanetary_close n of
              Inl err \<Rightarrow> Inl err
            | Inr n1 \<Rightarrow> Inr (startDiscovery (namespace n1) None n1))
      else Inr n)"

fun ticks :: "nat \<Rightarrow> node \<Rightarrow> js_error + node" where
  "ticks 0 n = Inr n"
| "ticks (Suc k) n =
     (case interval_tick n of Inl err \<Rightarrow> Inl err | Inr n' \<Rightarrow> ticks k n')"

text \<open>A restart is in flight while the session that \<^verbatim>\<open>startDiscovery\<close> created has
  neither been confirmed listening nor been closed.\<close>

definition in_flight :: "node \<Rightarrow> bool" where
  "in_flight n =
     (case interplanetary n of
        None \<Rightarrow> False
      | Some s \<Rightarrow> \<not> s_bound s \<and> \<not> s_closed s)"

definition count_effect :: "effect \<Rightarrow> node \<Rightarrow> nat" where
  "count_effect e n = length (filter (\<lambda>x. x = e) (trace n))"

subsection \<open>Routers and the handlers of peer messages\<close>

text \<open>A handler registered by \<^verbatim>\<open>onNewPeer\<close> has captured its router object. The
  router is found in the pool by its connection, which no two routers of a pool share,
  and written back after the handler has changed it.\<close>

definition find_router :: "nat \<Rightarrow> node \<Rightarrow> router option" where
  "find_router sk n = find (\<lambda>r. sock r = sk) (pool n)"

definition put_router :: "router \<Rightarrow> node \<Rightarrow> node" where
  "put_router r n = n\<lparr>pool := map (\<lambda>x. if sock x = sock r then r else x) (pool n)\<rparr>"

text \<open>Modelled from the spec: \<^verbatim>\<open>SocketPool.broadcast\<close> (\<^verbatim>\<open>network/socket-pool.js\<close> is
  not among the sources) sends the message to every router registered at call time.\<close>

definition pool_broadcast :: "message \<Rightarrow> node \<Rightarrow> node" where
  "pool_broadcast m n =
     do_effects (PoolBroadcast m # map (\<lambda>r. RouterSend (sock r) m) (pool n)) n"

text \<open>The \<^verbatim>\<open>clear\<close> handler, lines 275 to 277.\<close>

definition on_clear :: "node \<Rightarrow> node" where
  "on_clear n = do_effects [FmClear] n"

text \<open>The \<^verbatim>\<open>trigger\<close> handler, lines 279 to 296, and the callback it gives to
  \<^verbatim>\<open>triggerTask\<close>. An absent argument of \<^verbatim>\<open>cb\<close> is \<open>None\<close>.\<close>

definition trigger_request_of :: "packet \<Rightarrow> trigger_request" where
  "trigger_request_of p =
     \<lparr>rq_task_id = task_id p, rq_task_data = data p, rq_task_opts = opts p\<rparr>"

definition trigger_task_cb :: "string option \<Rightarrow> string option \<Rightarrow> node \<Rightarrow> node" where
  "trigger_task_cb err res n = do_effects [Reply err res] n"

definition trigger_handler :: "packet \<Rightarrow> node \<Rightarrow> node" where
  "trigger_handler p n =
     (if test_env n then do_effects [Reply None None] n
      else do_effects [TriggerTask (trigger_request_of p)] n)"

text \<open>The handler together with the task manager: \<open>tm\<close> gives, for a request, the
  \<^verbatim>\<open>(err, res)\<close> pairs with which \<^verbatim>\<open>triggerTask\<close> invokes its callback.\<close>

definition on_trigger ::
  "(trigger_request \<Rightarrow> (string option \<times> string option) list) \<Rightarrow> packet \<Rightarrow> node \<Rightarrow> node" where
  "on_trigger tm p n =
     (if test_env n then trigger_handler p n
      else fold (\<lambda>(err, res). trigger_task_cb err res) (tm (trigger_request_of p))
             (trigger_handler p n))"

text \<open>The \<^verbatim>\<open>sync:done\<close> handler, lines 301 to 307. The arguments of \<^verbatim>\<open>debug\<close>
  and the assignment read the identity of the router; nothing is read or written when
  the fingerprints differ.\<close>

definition on_sync_done :: "nat \<Rightarrow> string \<Rightarrow> node \<Rightarrow> js_error + node" where
  "on_sync_done sk synced_md5 n =
     (case find_router sk n of
        None \<Rightarrow> Inr n
      | Some r \<Rightarrow>
          if synced_md5 = current_md5 (fm n)
          then (case identity r of
                  None \<Rightarrow> Inl (TypeError ''Cannot read property name of undefined'')
                | Some i \<Rightarrow> Inr (put_router (r\<lparr>identity := Some (i\<lparr>synchronized := True\<rparr>)\<rparr>) n))
          else Inr n)"

text \<open>The truth value of a callback's \<^verbatim>\<open>err\<close> argument: \<^verbatim>\<open>null\<close> and
  \<^verbatim>\<open>undefined\<close> (here \<open>None\<close>) and the empty string are falsy.\<close>

definition js_truthy :: "string option \<Rightarrow> bool" where
  "js_truthy v = (case v of None \<Rightarrow> False | Some e \<Rightarrow> e \<noteq> [])"

text \<open>The \<^verbatim>\<open>sync\<close> handler, lines 312 to 349, in three parts: the handler itself, the
  callback it gives to \<^verbatim>\<open>file_manager.synchronize\<close>, and the callback given to
  \<^verbatim>\<open>initTaskGroup\<close>. The callback of \<^verbatim>\<open>synchronize\<close> receives \<^verbatim>\<open>err\<close> and
  \<^verbatim>\<open>meta\<close>; \<open>m\<close> is the \<^verbatim>\<open>dest_folder\<close> of the meta, \<open>None\<close> when no meta is
  passed. Line 321 tests \<^verbatim>\<open>if (err)\<close>, and line 325 reads \<^verbatim>\<open>meta.dest_folder\<close>.\<close>

definition on_sync :: "sync_data \<Rightarrow> string \<Rightarrow> node \<Rightarrow> node" where
  "on_sync d file n = do_effects [ConsoleLog ''Incoming sync req'', FmSynchronize d file] n"

definition set_task_meta :: "task_meta \<Rightarrow> node \<Rightarrow> node" where
  "set_task_meta m n = do_effects [SetTaskMeta m] (n\<lparr>tm_meta := m\<rparr>)"

definition init_task_group_cb :: "sync_data \<Rightarrow> node \<Rightarrow> node" where
  "init_task_group_cb d n = pool_broadcast (MSyncDone (curr_md5 d)) n"

definition synchronize_cb ::
  "sync_data \<Rightarrow> string option \<Rightarrow> string option \<Rightarrow> node \<Rightarrow> js_error + node" where
  "synchronize_cb d err m n =
     (case (if js_truthy err then err else None) of
        Some e \<Rightarrow> Inr (do_effects [ConsoleError [''Error while synchronizing file'', e]] n)
      | None \<Rightarrow>
          (case m of
             None \<Rightarrow> Inl (TypeError ''Cannot read property dest_folder of undefined'')
           | Some dest_folder \<Rightarrow>
               (let d1 = d\<lparr>meta := (meta d)\<lparr>base_folder := Some dest_folder\<rparr>\<rparr>;
                    n1 = set_task_meta (meta d1) n;
                    n2 = emit ''files:synchronized'' n1
                in if test_env n2 then Inr (pool_broadcast (MSyncDone (curr_md5 d1)) n2)
                   else Inr (do_effects [InitTaskGroup (meta d1)] n2))))"

text \<open>The whole exchange on a replica. The collaborators are parameters: \<open>err\<close> and
  \<open>m\<close> are what the file manager calls back with, \<open>fm_after\<close> is the file manager
  once it has called back, and \<open>init_calls_back\<close> says whether \<^verbatim>\<open>initTaskGroup\<close>,
  when it is called, invokes its callback.\<close>

definition sync_handler ::
  "string option \<Rightarrow> string option \<Rightarrow> file_manager \<Rightarrow> bool \<Rightarrow> sync_data \<Rightarrow> string \<Rightarrow> node
     \<Rightarrow> js_error + node" where
  "sync_handler err m fm_after init_calls_back d file n =
     (let n1 = on_sync d file n in
      case synchronize_cb d err m (n1\<lparr>fm := fm_after\<rparr>) of
        Inl e \<Rightarrow> Inl e
      | Inr n2 \<Rightarrow>
          (case m of
             None \<Rightarrow> Inr n2
           | Some dest_folder \<Rightarrow>
               if \<not> js_truthy err \<and> \<not> test_env n2 \<and> init_calls_back
               then Inr (init_task_group_cb
                           (d\<lparr>meta := (meta d)\<lparr>base_folder := Some dest_folder\<rparr>\<rparr>) n2)
               else Inr n2))"





text \<open>The connections to which a trace sends a \<^verbatim>\<open>sync\<close> offer, in order.\<close>

fun sync_offers :: "effect list \<Rightarrow> nat list" where
  "sync_offers [] = []"
| "sync_offers (RouterSend sk (MSync d f) # es) = sk # sync_offers es"
| "sync_offers (e # es) = sync_offers es"

text \<open>The messages a trace broadcasts to the pool, in order.\<close>

fun broadcasts :: "effect list \<Rightarrow> message list" where
  "broadcasts [] = []"
| "broadcasts (PoolBroadcast m # es) = m # broadcasts es"
| "broadcasts (e # es) = broadcasts es"

subsection \<open>Construction\<close>

text \<open>The constructor, lines 55 to 112. The options and the process environment are
  records; \<^verbatim>\<open>a || b\<close> on strings takes \<^verbatim>\<open>b\<close> when \<^verbatim>\<open>a\<close> is absent or empty, and on
  the port when it is absent or zero. \<open>o_file_manager\<close> is the file manager that
  \<^verbatim>\<open>FilesManagement\<close> builds from the options, \<open>o_task_meta\<close> the meta the task manager
  starts with. The constructor does not assign \<^verbatim>\<open>this.Interplanetary\<close>.\<close>

record options =
  o_peer_name :: "string option"
  o_namespace :: "js_string option"
  o_peer_api_port :: "nat option"
  o_file_manager :: file_manager
  o_task_meta :: task_meta

record environment =
  env_grid :: "js_string option"
  env_test :: bool
  moniker :: string
  internal_ip :: string

definition js_or :: "'a list option \<Rightarrow> 'a list \<Rightarrow> 'a list" where
  "js_or x d = (case x of None \<Rightarrow> d | Some v \<Rightarrow> if v = [] then d else v)"

definition GridControl :: "environment \<Rightarrow> options \<Rightarrow> node" where
  "GridControl ev os =
     \<lparr>peer_name = js_or (o_peer_name os) (moniker ev),
      namespace = js_or (env_grid ev) (js_or (o_namespace os) (js_string_of ''pm2:fs'')),
      public_ip = None,
      private_ip = internal_ip ev,
      peer_api_port = (case o_peer_api_port os of
                         None \<Rightarrow> 10000
                       | Some p \<Rightarrow> if p = 0 then 10000 else p),
      network_port = None,
      pool = [],
      interplanetary = None,
      fm = o_file_manager os,
      tm_meta = o_task_meta os,
      test_env = env_test ev,
      wait = None,
      ready_pending = False,
      trace = []\<rparr>"

subsection \<open>Sample states\<close>

definition ex_env :: environment where
  "ex_env = \<lparr>env_grid = None, env_test = False, moniker = ''calm-otter'',
             internal_ip = ''10.0.0.1''\<rparr>"

definition ex_meta :: task_meta where
  "ex_meta = \<lparr>instances = 2, json_conf = ''{}'', task_folder = ''tasks'', env = ''{}'',
              base_folder = None\<rparr>"

definition ex_fm :: "string \<Rightarrow> file_manager" where
  "ex_fm h = \<lparr>is_file_master = True, has_file_to_sync = True, current_md5 = h,
              current_file_buff = ''payload''\<rparr>"

definition ex_opts :: options where
  "ex_opts = \<lparr>o_peer_name = Some ''node-a'', o_namespace = Some (js_string_of ''grid''),
              o_peer_api_port = None, o_file_manager = ex_fm ''abc123'',
              o_task_meta = ex_meta\<rparr>"

definition ex_node :: node where
  "ex_node = GridControl ex_env ex_opts"

definition ex_router :: "nat \<Rightarrow> bool \<Rightarrow> router" where
  "ex_router k b =
     \<lparr>sock = k,
      identity = Some \<lparr>id_public_ip = ''10.0.0.2'', id_name = ''node-b'', synchronized = b\<rparr>\<rparr>"

definition ex_offer :: sync_data where
  "ex_offer = \<lparr>sd_public_ip = Some ''203.0.113.7'', sd_private_ip = ''10.0.0.1'',
               meta = ex_meta, curr_md5 = ''abc123''\<rparr>"

definition ex_master :: node where
  "ex_master = ex_node\<lparr>pool := [ex_router 1 True, ex_router 2 False]\<rparr>"

definition ex_replica :: node where
  "ex_replica = ex_node\<lparr>pool := [ex_router 1 False, ex_router 2 False],
                         fm := ex_fm ''''\<rparr>"

definition ex_packet :: packet where
  "ex_packet = \<lparr>task_id = ''t1'', data = ''{x:1}'', opts = ''{}''\<rparr>"

definition ex_tm :: "trigger_request \<Rightarrow> (string option \<times> string option) list" where
  "ex_tm rq = [(None, Some ''ok'')]"

definition ex_session :: "discovery_cb option \<Rightarrow> bool \<Rightarrow> session" where
  "ex_session cb b = \<lparr>s_key = discovery_key (js_string_of ''grid''), s_cb = cb, s_bound = b, s_closed = False\<rparr>"

definition ex_isolated :: node where
  "ex_isolated = ex_node\<lparr>interplanetary := Some (ex_session (Some StartCb) True)\<rparr>"

definition ex_restarted :: node where
  "ex_restarted =
     ex_node\<lparr>interplanetary := Some (ex_session None False),
              trace := [IpClose, IpCreate, IpListen 0, IpJoin (discovery_key (js_string_of ''grid''))]\<rparr>"

definition ex_restarted_twice :: node where
  "ex_restarted_twice =
     ex_node\<lparr>interplanetary := Some (ex_session None False),
              trace := [IpClose, IpCreate, IpListen 0, IpJoin (discovery_key (js_string_of ''grid'')),
                        IpClose, IpCreate, IpListen 0, IpJoin (discovery_key (js_string_of ''grid''))]\<rparr>"

text \<open>The callback invocations of a run, none when the run has thrown.\<close>

definition callbacks_of :: "js_error + node \<Rightarrow> string option list" where
  "callbacks_of r = (case r of Inl err \<Rightarrow> [] | Inr n \<Rightarrow> cb_calls (trace n))"

definition ex_replica_done :: node where
  "ex_replica_done =
     ex_replica\<lparr>fm := ex_fm ''def456'',
                 tm_meta := ex_meta\<lparr>base_folder := Some ''/tmp/grid''\<rparr>,
                 trace :=
                   [ConsoleLog ''Incoming sync req'', FmSynchronize ex_offer ''payload'',
                    SetTaskMeta (ex_meta\<lparr>base_folder := Some ''/tmp/grid''\<rparr>),
                    Emit ''files:synchronized'',
                    InitTaskGroup (ex_meta\<lparr>base_folder := Some ''/tmp/grid''\<rparr>),
                    PoolBroadcast (MSyncDone ''abc123''),
                    RouterSend 1 (MSyncDone ''abc123''),
                    RouterSend 2 (MSyncDone ''abc123'')]\<rparr>"

section \<open>Properties\<close>

subsection \<open>Helper facts: code points, UTF-8 and hexadecimal digits\<close>
























subsection \<open>Keys of namespaces\<close>




subsection \<open>Helper facts: events leave the rest of the node alone\<close>

lemma do_effects_simps:
  "trace (do_effects es n) = trace n @ es"
  "pool (do_effects es n) = pool n"
  "fm (do_effects es n) = fm n"
  "tm_meta (do_effects es n) = tm_meta n"
  "test_env (do_effects es n) = test_env n"
  "interplanetary (do_effects es n) = interplanetary n"
  "namespace (do_effects es n) = namespace n"
  "wait (do_effects es n) = wait n"
  "ready_pending (do_effects es n) = ready_pending n"
  "public_ip (do_effects es n) = public_ip n"
  "private_ip (do_effects es n) = private_ip n"
  by (simp_all add: do_effects_def)

lemma do_effects_do_effects: "do_effects bs (do_effects as n) = do_effects (as @ bs) n"
  by (simp add: do_effects_def)

lemma emit_simps:
  "trace (emit name n) = trace n @ [Emit name]"
  "pool (emit name n) = pool n"
  "fm (emit name n) = fm n"
  "tm_meta (emit name n) = tm_meta n"
  "test_env (emit name n) = test_env n"
  "interplanetary (emit name n) = interplanetary n"
  "namespace (emit name n) = namespace n"
  "public_ip (emit name n) = public_ip n"
  "private_ip (emit name n) = private_ip n"
  by (simp_all add: emit_def do_effects_def Let_def split: option.splits prod.splits)

lemma emit_no_wait: "wait n = None \<Longrightarrow> emit name n = do_effects [Emit name] n"
  by (simp add: emit_def do_effects_def)

lemma broadcasts_append: "broadcasts (xs @ ys) = broadcasts xs @ broadcasts ys"
  by (induction xs rule: broadcasts.induct) simp_all

lemma broadcasts_sends: "broadcasts (map (\<lambda>r. RouterSend (sock r) m) rs) = []"
  by (induction rs) simp_all

subsection \<open>Task triggers\<close>

lemma fold_trigger_task_cb:
  "fold (\<lambda>(err, res). trigger_task_cb err res) rs n =
   do_effects (map (\<lambda>(err, res). Reply err res) rs) n"
proof (induction rs arbitrary: n)
  case Nil
  show ?case by (simp add: do_effects_def)
next
  case (Cons r rs)
  then show ?case
    by (cases r) (simp add: trigger_task_cb_def do_effects_do_effects)
qed

text \<open>
  C10. In test mode the \<^verbatim>\<open>trigger\<close> handler replies at once with neither an error nor
  a result and the task manager is not called, whatever the packet. Outside test mode
  it calls \<^verbatim>\<open>triggerTask\<close> with the three fields of the packet, and every
  \<^verbatim>\<open>(err, res)\<close> pair with which the task manager calls back is replied unchanged.
  Nothing but the trace of calls changes.
\<close>

theorem trigger_reply:
  "on_trigger tm p n =
     do_effects
       (if test_env n then [Reply None None]
        else TriggerTask \<lparr>rq_task_id = task_id p, rq_task_data = data p, rq_task_opts = opts p\<rparr>
             # map (\<lambda>(err, res). Reply err res)
                 (tm \<lparr>rq_task_id = task_id p, rq_task_data = data p, rq_task_opts = opts p\<rparr>))
       n"
  by (simp add: on_trigger_def trigger_handler_def fold_trigger_task_cb
      do_effects_do_effects do_effects_simps trigger_request_of_def)

theorem trigger_reply_witness:
  "trace (on_trigger ex_tm ex_packet (ex_node\<lparr>test_env := True\<rparr>)) = [Reply None None]
   \<and> trace (on_trigger ex_tm ex_packet ex_node) =
       [TriggerTask \<lparr>rq_task_id = ''t1'', rq_task_data = ''{x:1}'', rq_task_opts = ''{}''\<rparr>,
        Reply None (Some ''ok'')]"
  using trigger_reply [of ex_tm ex_packet "ex_node\<lparr>test_env := True\<rparr>"]
    trigger_reply [of ex_tm ex_packet ex_node]
  by (simp add: do_effects_def ex_node_def GridControl_def ex_env_def ex_packet_def ex_tm_def)

subsection \<open>Replication on a replica\<close>

text \<open>
  C5. When the file manager reports an error for an incoming \<^verbatim>\<open>sync\<close> offer (an
  \<^verbatim>\<open>err\<close> that \<^verbatim>\<open>if (err)\<close> takes as true), the handler logs the offer, calls
  \<^verbatim>\<open>synchronize\<close> once, logs the error and does nothing else, whatever else the file
  manager passes: nothing is broadcast, nothing is sent to any router, \<^verbatim>\<open>synchronize\<close>
  is not called again, and the task meta and the pool are as they were.
\<close>

theorem sync_failure_is_terminal:
  assumes "e \<noteq> []"
  shows "\<exists>n'. sync_handler (Some e) m fm_after init_calls_back d file n = Inr n'
     \<and> n' = do_effects
              [ConsoleLog ''Incoming sync req'', FmSynchronize d file,
               ConsoleError [''Error while synchronizing file'', e]]
              (n\<lparr>fm := fm_after\<rparr>)
     \<and> broadcasts (trace n') = broadcasts (trace n)
     \<and> tm_meta n' = tm_meta n
     \<and> pool n' = pool n"
  using assms
  by (cases m)
    (simp_all add: sync_handler_def on_sync_def synchronize_cb_def js_truthy_def do_effects_def
      broadcasts_append)

theorem sync_failure_is_terminal_witness:
  "sync_handler (Some ''ENOSPC'') (Some ''/tmp/grid'') (ex_fm []) True ex_offer ''payload''
     ex_replica =
   Inr (do_effects
          [ConsoleLog ''Incoming sync req'', FmSynchronize ex_offer ''payload'',
           ConsoleError [''Error while synchronizing file'', ''ENOSPC'']]
          (ex_replica\<lparr>fm := ex_fm []\<rparr>))
   \<and> broadcasts (trace (do_effects
          [ConsoleLog ''Incoming sync req'', FmSynchronize ex_offer ''payload'',
           ConsoleError [''Error while synchronizing file'', ''ENOSPC'']]
          (ex_replica\<lparr>fm := ex_fm []\<rparr>))) = []"
proof -
  have h: "''ENOSPC'' \<noteq> []"
    by simp
  have t: "trace ex_replica = []"
    by (simp add: ex_replica_def ex_node_def GridControl_def)
  from sync_failure_is_terminal [OF h, of "Some ''/tmp/grid''" "ex_fm []" True ex_offer
      "''payload''" ex_replica]
  show ?thesis
    using t by auto
qed

text \<open>
  C6, as the code has it. When the file manager reports no error and passes the meta of
  the unpacked payload, the handler puts the unpacked folder into the meta of the offer
  as its base folder, gives that meta to the task manager, emits
  \<^verbatim>\<open>files:synchronized\<close> and, in test mode at once, otherwise after \<^verbatim>\<open>initTaskGroup\<close>
  has called back, broadcasts \<^verbatim>\<open>sync:done\<close> to the pool, so to every router and not
  only to the sender. The fingerprint it carries is the one of the offer,
  \<^verbatim>\<open>data.curr_md5\<close>; the fingerprint of the node's own file manager is not read.
\<close>

theorem sync_success_broadcasts_offer_md5:
  assumes "test_env n \<or> init_calls_back" and "\<not> js_truthy err"
  shows "\<exists>n'. sync_handler err (Some dest) fm_after init_calls_back d file n = Inr n'
   \<and> tm_meta n' = (meta d)\<lparr>base_folder := Some dest\<rparr>
   \<and> trace n' =
       trace n @
       [ConsoleLog ''Incoming sync req'', FmSynchronize d file,
        SetTaskMeta ((meta d)\<lparr>base_folder := Some dest\<rparr>), Emit ''files:synchronized''] @
       (if test_env n then [] else [InitTaskGroup ((meta d)\<lparr>base_folder := Some dest\<rparr>)]) @
       PoolBroadcast (MSyncDone (curr_md5 d)) #
       map (\<lambda>r. RouterSend (sock r) (MSyncDone (curr_md5 d))) (pool n)
   \<and> pool n' = pool n
   \<and> fm n' = fm_after"
  using assms
  by (auto simp: sync_handler_def on_sync_def synchronize_cb_def set_task_meta_def
      init_task_group_cb_def pool_broadcast_def do_effects_simps emit_simps Let_def)

theorem sync_success_broadcasts_offer_md5_witness:
  "(\<exists>n'. sync_handler None (Some ''/tmp/grid'') (ex_fm ''abc123'') True ex_offer ''payload''
            ex_replica = Inr n'
        \<and> broadcasts (trace n') = [MSyncDone ''abc123'']
        \<and> base_folder (tm_meta n') = Some ''/tmp/grid'')
   \<and> (\<exists>n'. sync_handler (Some []) (Some ''/tmp/grid'') (ex_fm ''abc123'') True ex_offer
            ''payload'' ex_replica = Inr n'
        \<and> broadcasts (trace n') = [MSyncDone ''abc123''])"
proof -
  have h: "test_env ex_replica \<or> True"
    by simp
  have f: "\<not> js_truthy None" "\<not> js_truthy (Some [])"
    by (simp_all add: js_truthy_def)
  have t: "trace ex_replica = []" "test_env ex_replica = False"
    by (simp_all add: ex_replica_def ex_node_def GridControl_def ex_env_def)
  have c: "curr_md5 ex_offer = ''abc123''"
    by (simp add: ex_offer_def)
  from sync_success_broadcasts_offer_md5 [OF h f(1), of "''/tmp/grid''" "ex_fm ''abc123''"
      ex_offer "''payload''"]
  have "\<exists>n'. sync_handler None (Some ''/tmp/grid'') (ex_fm ''abc123'') True ex_offer ''payload''
            ex_replica = Inr n'
        \<and> broadcasts (trace n') = [MSyncDone ''abc123'']
        \<and> base_folder (tm_meta n') = Some ''/tmp/grid''"
    using t c by (auto simp: broadcasts_append broadcasts_sends)
  moreover from sync_success_broadcasts_offer_md5 [OF h f(2), of "''/tmp/grid''"
      "ex_fm ''abc123''" ex_offer "''payload''"]
  have "\<exists>n'. sync_handler (Some []) (Some ''/tmp/grid'') (ex_fm ''abc123'') True ex_offer
            ''payload'' ex_replica = Inr n'
        \<and> broadcasts (trace n') = [MSyncDone ''abc123'']"
    using t c by (auto simp: broadcasts_append broadcasts_sends)
  ultimately show ?thesis by simp
qed

text \<open>
  C6 as stated fails: a replica whose file manager reports the fingerprint
  \<^verbatim>\<open>def456\<close> once it has stored the payload of an offer made for \<^verbatim>\<open>abc123\<close> broadcasts
  \<^verbatim>\<open>abc123\<close>, which is not its current fingerprint.
\<close>

theorem sync_done_carries_current_md5_counterexample:
  "sync_handler None (Some ''/tmp/grid'') (ex_fm ''def456'') True ex_offer ''payload''
     ex_replica = Inr ex_replica_done
   \<and> broadcasts (trace ex_replica_done) = [MSyncDone ''abc123'']
   \<and> current_md5 (fm ex_replica_done) = ''def456''
   \<and> broadcasts (trace ex_replica_done) \<noteq> [MSyncDone (current_md5 (fm ex_replica_done))]"
  by (simp add: sync_handler_def on_sync_def synchronize_cb_def set_task_meta_def
      init_task_group_cb_def pool_broadcast_def do_effects_def emit_def Let_def js_truthy_def
      ex_replica_done_def ex_offer_def ex_replica_def ex_node_def GridControl_def ex_env_def
      ex_fm_def ex_router_def)

subsection \<open>Routers in the pool\<close>

lemma find_put_router:
  assumes "find (\<lambda>x. sock x = sk) rs = Some r" and "sock r' = sk"
  shows "find (\<lambda>x. sock x = sk) (map (\<lambda>x. if sock x = sock r' then r' else x) rs) = Some r'"
  using assms by (induction rs) (auto split: if_splits)

lemma find_router_sock: "find_router sk n = Some r \<Longrightarrow> sock r = sk"
  by (auto simp: find_router_def find_Some_iff)

lemma others_put_router:
  "filter (\<lambda>x. sock x \<noteq> sock r') (map (\<lambda>x. if sock x = sock r' then r' else x) rs) =
   filter (\<lambda>x. sock x \<noteq> sock r') rs"
  by (induction rs) auto

text \<open>
  C1, as the code has it. A \<^verbatim>\<open>sync:done\<close> report whose fingerprint differs from the
  current one changes nothing and raises no error. On a router whose identity has been
  received, the flag after the report is true exactly when it was true before or the
  fingerprints are equal: the report sets the flag when they are equal and never
  clears it. So a flag that was false is true afterwards if and only if the
  fingerprints are equal. The routers of the other connections are untouched.
\<close>

theorem sync_done_sets_flag:
  assumes "find_router sk n = Some r" and "identity r = Some i"
  shows "(md \<noteq> current_md5 (fm n) \<longrightarrow> on_sync_done sk md n = Inr n)
   \<and> (\<exists>n' i'. on_sync_done sk md n = Inr n'
        \<and> find_router sk n' = Some (r\<lparr>identity := Some i'\<rparr>)
        \<and> i' = i\<lparr>synchronized := (synchronized i \<or> md = current_md5 (fm n))\<rparr>
        \<and> (\<not> synchronized i \<longrightarrow> (synchronized i' \<longleftrightarrow> md = current_md5 (fm n)))
        \<and> filter (\<lambda>x. sock x \<noteq> sk) (pool n') = filter (\<lambda>x. sock x \<noteq> sk) (pool n)
        \<and> trace n' = trace n)"
proof (cases "md = current_md5 (fm n)")
  case True
  let ?r' = "r\<lparr>identity := Some (i\<lparr>synchronized := True\<rparr>)\<rparr>"
  have sk: "sock r = sk"
    using assms(1) by (rule find_router_sock)
  have run: "on_sync_done sk md n = Inr (put_router ?r' n)"
    using assms True by (simp add: on_sync_done_def)
  have found: "find_router sk (put_router ?r' n) = Some ?r'"
    using assms(1) sk find_put_router [of sk "pool n" r ?r']
    by (simp add: find_router_def put_router_def)
  have others: "filter (\<lambda>x. sock x \<noteq> sk) (pool (put_router ?r' n)) =
      filter (\<lambda>x. sock x \<noteq> sk) (pool n)"
    using others_put_router [of ?r' "pool n"] sk by (simp add: put_router_def)
  show ?thesis
    using True run found others by (simp add: put_router_def)
next
  case False
  have run: "on_sync_done sk md n = Inr n"
    using assms False by (simp add: on_sync_done_def)
  have same: "r\<lparr>identity := Some (i\<lparr>synchronized := synchronized i\<rparr>)\<rparr> = r"
    using assms(2) by simp
  show ?thesis
    using False run assms(1) same by simp
qed

theorem sync_done_sets_flag_witness:
  "find_router 2 ex_master = Some (ex_router 2 False)
   \<and> on_sync_done 2 ''0ld'' ex_master = Inr ex_master
   \<and> (\<exists>n'. on_sync_done 2 ''abc123'' ex_master = Inr n'
        \<and> find_router 2 n' = Some (ex_router 2 True))"
proof -
  have f: "find_router 2 ex_master = Some (ex_router 2 False)"
    by (simp add: find_router_def ex_master_def ex_router_def)
  have i: "identity (ex_router 2 False) =
      Some \<lparr>id_public_ip = ''10.0.0.2'', id_name = ''node-b'', synchronized = False\<rparr>"
    by (simp add: ex_router_def)
  have cur: "current_md5 (fm ex_master) = ''abc123''"
    by (simp add: ex_master_def ex_node_def GridControl_def ex_opts_def ex_fm_def)
  have "on_sync_done 2 ''0ld'' ex_master = Inr ex_master"
    using sync_done_sets_flag [OF f i, of "''0ld''"] cur by simp
  moreover have "\<exists>n'. on_sync_done 2 ''abc123'' ex_master = Inr n'
        \<and> find_router 2 n' = Some (ex_router 2 True)"
    using sync_done_sets_flag [OF f i, of "''abc123''"] cur by (auto simp: ex_router_def)
  ultimately show ?thesis using f by simp
qed

text \<open>
  C1 as stated fails on a router that is already synchronized: a report with another
  fingerprint leaves its flag true, although the fingerprints differ.
\<close>

theorem sync_done_iff_counterexample:
  "on_sync_done 1 ''0ld'' ex_master = Inr ex_master
   \<and> find_router 1 ex_master = Some (ex_router 1 True)
   \<and> identity (ex_router 1 True) =
       Some \<lparr>id_public_ip = ''10.0.0.2'', id_name = ''node-b'', synchronized = True\<rparr>
   \<and> ''0ld'' \<noteq> current_md5 (fm ex_master)"
  by (simp add: on_sync_done_def find_router_def
      ex_master_def ex_router_def ex_node_def GridControl_def ex_opts_def ex_fm_def)

subsection \<open>Asking every peer to synchronize\<close>

lemma sync_offers_append: "sync_offers (xs @ ys) = sync_offers xs @ sync_offers ys"
  by (induction xs rule: sync_offers.induct) simp_all






subsection \<open>Stopping discovery\<close>

text \<open>
  C8 fails on the code. The constructor does not assign \<^verbatim>\<open>this.Interplanetary\<close>, and
  \<^verbatim>\<open>stopDiscovery\<close> calls \<^verbatim>\<open>close()\<close> on it without a test: on a node on which
  discovery was never started it throws a \<^verbatim>\<open>TypeError\<close>.
\<close>

theorem stopDiscovery_never_started:
  "stopDiscovery (GridControl ev os) = Inl (TypeError ''Cannot read property close of undefined'')"
  by (simp add: stopDiscovery_def interplanetary_close_def GridControl_def)

lemma stopDiscovery_started:
  "\<exists>n'. stopDiscovery (startDiscovery ns cb n) = Inr n'
     \<and> trace n' = trace n @ [IpCreate, IpListen 0, IpJoin (discovery_key ns), IpClose]"
  by (simp add: stopDiscovery_def interplanetary_close_def startDiscovery_def do_effects_def)

subsection \<open>Reaching ready\<close>











text \<open>The barrier fed by the handlers of \<^verbatim>\<open>start\<close> themselves: the address is
  resolved, the session becomes listening, and the API is bound last.\<close>

lemma start_sequence_reaches_ready:
  "\<exists>n2. session_events [IpListening 4000] (settle (on_public_ip ''203.0.113.7'' (start ex_node)))
         = Inr n2
     \<and> count_emitted ''ready'' n2 = 0
     \<and> count_emitted ''ready'' (settle (on_api_started n2)) = 1
     \<and> count_effect (SetInterval 10000) (settle (on_api_started n2)) = 1"
  by (simp add: session_event_def interplanetary_on_listening_def call_cb_def settle_def
      on_ready_def emit_def wait_signal_def on_public_ip_def on_api_started_def start_def
      startDiscovery_def do_effects_def Let_def count_emitted_def count_effect_def
      ex_node_def GridControl_def ex_env_def ex_opts_def js_or_def js_string_of_def)

subsection \<open>Ticks of the self-healing timer\<close>

text \<open>
  C3, as the code has it. On a node that holds a discovery session, as every node that
  has reached \<^verbatim>\<open>ready\<close> does, a tick with an empty pool closes the session and calls
  \<^verbatim>\<open>startDiscovery\<close> once, with the namespace the node has and without a callback;
  the new session is not yet listening. Nothing in the tick looks at the state of the
  session it closes, so this happens as well when that session is itself a restart
  which has not been confirmed listening. A tick with a router in the pool changes
  nothing.
\<close>

theorem tick_restarts_when_isolated:
  assumes "interplanetary n = Some s"
  shows "interval_tick n =
     Inr (if pool n = []
          then n\<lparr>interplanetary :=
                   Some \<lparr>s_key = discovery_key (namespace n), s_cb = None,
                         s_bound = False, s_closed = False\<rparr>,
                 trace := trace n @
                   [IpClose, IpCreate, IpListen 0, IpJoin (discovery_key (namespace n))]\<rparr>
          else n)"
  using assms
  by (simp add: interval_tick_def interplanetary_close_def startDiscovery_def do_effects_def)

theorem tick_restarts_when_isolated_witness:
  "interval_tick ex_isolated = Inr ex_restarted
   \<and> interval_tick (ex_isolated\<lparr>pool := [ex_router 1 False]\<rparr>) =
       Inr (ex_isolated\<lparr>pool := [ex_router 1 False]\<rparr>)"
proof -
  have a: "interplanetary ex_isolated = Some (ex_session (Some StartCb) True)"
    and b: "interplanetary (ex_isolated\<lparr>pool := [ex_router 1 False]\<rparr>) =
      Some (ex_session (Some StartCb) True)"
    by (simp_all add: ex_isolated_def)
  have "interval_tick ex_isolated = Inr ex_restarted"
    using tick_restarts_when_isolated [OF a]
    by (simp add: ex_isolated_def ex_restarted_def ex_session_def ex_node_def
        GridControl_def ex_env_def ex_opts_def js_or_def js_string_of_def)
  moreover have "interval_tick (ex_isolated\<lparr>pool := [ex_router 1 False]\<rparr>) =
       Inr (ex_isolated\<lparr>pool := [ex_router 1 False]\<rparr>)"
    using tick_restarts_when_isolated [OF b] by simp
  ultimately show ?thesis by simp
qed

text \<open>
  C3 as stated fails: the restart made by a first tick is still in flight (its
  session is neither listening nor closed) when the next tick, the pool being still
  empty, closes it and starts another.
\<close>

theorem tick_overlap_counterexample:
  "interval_tick ex_isolated = Inr ex_restarted
   \<and> in_flight ex_restarted
   \<and> interval_tick ex_restarted = Inr ex_restarted_twice
   \<and> ticks 2 ex_isolated = Inr ex_restarted_twice
   \<and> count_effect IpCreate ex_restarted = 1
   \<and> count_effect IpCreate ex_restarted_twice = 2"
  by (simp add: numeral_2_eq_2 interval_tick_def interplanetary_close_def startDiscovery_def
      do_effects_def in_flight_def count_effect_def ex_isolated_def ex_restarted_def ex_restarted_twice_def
      ex_session_def ex_node_def GridControl_def ex_env_def ex_opts_def js_or_def
      js_string_of_def)

subsection \<open>The callback of \<^verbatim>\<open>startDiscovery\<close>\<close>

lemma cb_calls_append: "cb_calls (xs @ ys) = cb_calls xs @ cb_calls ys"
  by (induction xs rule: cb_calls.induct) simp_all

lemma settle_session:
  "interplanetary (settle n) = interplanetary n"
  "cb_calls (trace (settle n)) = cb_calls (trace n)"
  by (simp_all add: settle_def on_ready_def Let_def do_effects_simps emit_simps cb_calls_append)

lemma call_cb_session:
  "interplanetary (call_cb c err n) = interplanetary n"
  "cb_calls (trace (call_cb c err n)) = cb_calls (trace n) @ [err]"
  by (cases c; cases err;
      simp add: call_cb_def Let_def do_effects_simps emit_simps cb_calls_append)+

lemma onNewPeer_session:
  "interplanetary (onNewPeer sk n) = interplanetary n"
  "cb_calls (trace (onNewPeer sk n)) = cb_calls (trace n)"
  by (simp_all add: onNewPeer_def pool_add_def Let_def do_effects_simps emit_simps
      cb_calls_append)

lemma session_event_cb:
  assumes "interplanetary n = Some s" and "s_cb s = Some c"
  shows "\<exists>n' s'. session_event ev n = Inr n' \<and> interplanetary n' = Some s'
     \<and> s_cb s' = Some c \<and> cb_calls (trace n') = cb_calls (trace n) @ cb_args ev"
proof (cases ev)
  case (IpError e)
  then show ?thesis
    using assms
    by (simp add: session_event_def interplanetary_on_error_def Let_def call_cb_session
        do_effects_simps cb_calls_append)
next
  case (IpListening p)
  then show ?thesis
    using assms
    by (simp add: session_event_def interplanetary_on_listening_def Let_def call_cb_session)
next
  case (IpConnection sk)
  then show ?thesis
    using assms by (simp add: session_event_def onNewPeer_session)
qed

lemma session_events_cb:
  assumes "interplanetary n = Some s" and "s_cb s = Some c"
  shows "\<exists>n'. session_events evs n = Inr n'
     \<and> cb_calls (trace n') = cb_calls (trace n) @ concat (map cb_args evs)"
  using assms
proof (induction evs arbitrary: n s)
  case Nil
  then show ?case by simp
next
  case (Cons ev evs)
  from session_event_cb [OF Cons.prems, of ev]
  obtain n1 s1 where n1: "session_event ev n = Inr n1" "interplanetary n1 = Some s1"
    "s_cb s1 = Some c" "cb_calls (trace n1) = cb_calls (trace n) @ cb_args ev"
    by blast
  have "interplanetary (settle n1) = Some s1"
    using n1(2) by (simp add: settle_session)
  from Cons.IH [OF this n1(3)]
  obtain n' where n': "session_events evs (settle n1) = Inr n'"
    "cb_calls (trace n') = cb_calls (trace (settle n1)) @ concat (map cb_args evs)"
    by blast
  show ?case
    using n1(1,4) n' by (simp add: settle_session)
qed

text \<open>
  C4, as the code has it. After \<^verbatim>\<open>startDiscovery\<close> with a callback, the handlers of
  the session invoke the callback once for each \<^verbatim>\<open>listening\<close> event, without an
  error, and once for each \<^verbatim>\<open>error\<close> event, with that error, in the order of the
  events; a connection invokes nothing, and no handler throws. So the callback has been
  invoked as many times as the session has emitted such events: exactly once when it
  has emitted exactly one.
\<close>

theorem callback_once_per_event:
  "\<exists>n'. session_events evs (startDiscovery ns (Some c) n) = Inr n'
     \<and> cb_calls (trace n') = cb_calls (trace n) @ concat (map cb_args evs)"
proof -
  let ?s = "\<lparr>s_key = discovery_key ns, s_cb = Some c, s_bound = False, s_closed = False\<rparr>"
  have "interplanetary (startDiscovery ns (Some c) n) = Some ?s"
    by (simp add: startDiscovery_def do_effects_def)
  moreover have "s_cb ?s = Some c"
    by simp
  ultimately obtain n' where "session_events evs (startDiscovery ns (Some c) n) = Inr n'"
    "cb_calls (trace n') =
       cb_calls (trace (startDiscovery ns (Some c) n)) @ concat (map cb_args evs)"
    using session_events_cb by blast
  then show ?thesis
    by (simp add: startDiscovery_def do_effects_def cb_calls_append)
qed

theorem callback_once_per_event_witness:
  "callbacks_of (session_events [IpConnection 7, IpListening 4000]
     (startDiscovery (js_string_of ''grid'') (Some StartCb) ex_node)) = [None]"
  using callback_once_per_event [of "[IpConnection 7, IpListening 4000]" "js_string_of ''grid''" StartCb ex_node]
  by (auto simp: callbacks_of_def ex_node_def GridControl_def)

text \<open>
  C4 as stated fails: a session that emits an error and then becomes listening invokes
  the callback twice, and a session that emits neither never invokes it.
\<close>

theorem callback_twice_counterexample:
  "callbacks_of (session_events [IpError ''EADDRINUSE'', IpListening 4000]
     (startDiscovery (js_string_of ''grid'') (Some CallerCb) ex_node)) = [Some ''EADDRINUSE'', None]
   \<and> callbacks_of (session_events [IpConnection 7]
     (startDiscovery (js_string_of ''grid'') (Some CallerCb) ex_node)) = []"
  by (simp add: callbacks_of_def session_event_def interplanetary_on_error_def
      interplanetary_on_listening_def onNewPeer_def pool_add_def call_cb_def settle_def emit_def
      startDiscovery_def getLocalIdentity_def do_effects_def Let_def
      ex_node_def GridControl_def ex_env_def ex_opts_def ex_fm_def)

end
